theory Spec2Isabelle
  imports Main
begin

section \<open>Values, documents and exceptions\<close>

text \<open>
  The values this backend puts into documents, token claims and responses: \<open>None\<close>,
  booleans, strings, \<open>datetime\<close> (microseconds since the epoch), the document store's
  native \<open>ObjectId\<close>, lists and nested dicts.
\<close>

datatype val =
    VNone
  | VBool bool
  | VStr string
  | VTime int
  | VOid nat
  | VList "val list"
  | VDict "(string \<times> val) list"

text \<open>A Python dict with string keys: \<open>d k\<close> is \<open>None\<close> where the key is missing.\<close>

type_synonym document = "string \<rightharpoonup> val"

text \<open>\<open>d.get(k)\<close> and \<open>d.get(k, default)\<close>.\<close>

definition py_get :: "document \<Rightarrow> string \<Rightarrow> val" where
  "py_get d k = (case d k of None \<Rightarrow> VNone | Some v \<Rightarrow> v)"

definition py_get_default :: "document \<Rightarrow> string \<Rightarrow> val \<Rightarrow> val" where
  "py_get_default d k dflt = (case d k of None \<Rightarrow> dflt | Some v \<Rightarrow> v)"

text \<open>
  What leaves a handler instead of a response: an \<open>HTTPException\<close> raised by the handler
  itself (status code and detail), or any other exception, named by its class, that no
  handler catches.
\<close>

datatype exn =
    HTTPException nat string
  | Raised string

section \<open>External collaborators\<close>

text \<open>
  The libraries and the process environment are parameters of the model:
  \<^item> \<open>py_str\<close>: Python's \<open>str()\<close> on a stored value;
  \<^item> \<open>pwd_hash\<close>, \<open>pwd_verify\<close>: \<open>pwd_context.hash\<close> and \<open>pwd_context.verify\<close>.
    Hashing draws a random salt, so the result depends on which call of the process it
    is (the \<open>nat\<close>); both may raise (\<open>Inl\<close> the exception class);
  \<^item> \<open>jwt_encode\<close>: \<open>jwt.encode(claims, key, algorithm)\<close>;
  \<^item> \<open>getenv_JWT_SECRET\<close>: the environment variable \<open>JWT_SECRET\<close>, if set;
  \<^item> \<open>utcnow\<close>: the value of the n-th \<open>datetime.utcnow()\<close> of the process.
\<close>

record env =
  py_str :: "val \<Rightarrow> string"
  pwd_hash :: "nat \<Rightarrow> string \<Rightarrow> string + string"
  pwd_verify :: "string \<Rightarrow> val \<Rightarrow> string + bool"
  jwt_encode :: "document \<Rightarrow> string \<Rightarrow> string \<Rightarrow> string"
  getenv_JWT_SECRET :: "string option"
  utcnow :: "nat \<Rightarrow> int"

section \<open>The document store\<close>

text \<open>
  The store behind \<open>db\<close>: named collections of documents in insertion order, a supply of
  fresh \<open>ObjectId\<close>s, and whether the server can be reached. A driver call against an
  unreachable server raises.
\<close>

record store =
  reachable :: bool
  colls :: "string \<Rightarrow> document list"
  next_oid :: nat

text \<open>
  The process: \<open>db\<close> is \<open>None\<close> when the store was never initialised; \<open>ticks\<close> counts the
  clock reads and \<open>hash_calls\<close> the password hashes done so far.
\<close>

record world =
  db :: "store option"
  ticks :: nat
  hash_calls :: nat

definition unreachable :: exn where
  "unreachable = Raised ''ServerSelectionTimeoutError''"

text \<open>An equality filter \<open>{k1: v1, ...}\<close>: every listed field is present with that value.\<close>

definition matches :: "(string \<times> val) list \<Rightarrow> document \<Rightarrow> bool" where
  "matches flt d = list_all (\<lambda>(k, v). d k = Some v) flt"

text \<open>\<open>db[c].find_one(flt)\<close>: the first matching document, or \<open>None\<close>.\<close>

definition find_one :: "store \<Rightarrow> string \<Rightarrow> (string \<times> val) list \<Rightarrow> exn + document option" where
  "find_one st c flt =
     (if reachable st then Inr (List.find (matches flt) (colls st c)) else Inl unreachable)"

text \<open>\<open>db[c].count_documents(flt)\<close>.\<close>

definition count_documents :: "store \<Rightarrow> string \<Rightarrow> (string \<times> val) list \<Rightarrow> exn + nat" where
  "count_documents st c flt =
     (if reachable st then Inr (length (filter (matches flt) (colls st c))) else Inl unreachable)"

text \<open>
  \<open>db[c].insert_one(d)\<close>: a document without \<open>_id\<close> gets a fresh \<open>ObjectId\<close>, which the
  driver also writes into the caller's dict; a document that brings its own \<open>_id\<close> is
  refused when that \<open>_id\<close> is taken. The result is the inserted id, the caller's dict
  as the driver leaves it, and the new store.
\<close>

definition insert_one :: "store \<Rightarrow> string \<Rightarrow> document \<Rightarrow> exn + (val \<times> document \<times> store)" where
  "insert_one st c d =
     (if \<not> reachable st then Inl unreachable
      else (case d ''_id'' of
              None \<Rightarrow>
                (let d' = d(''_id'' \<mapsto> VOid (next_oid st))
                 in Inr (VOid (next_oid st), d',
                         st\<lparr>colls := (colls st)(c := colls st c @ [d']),
                            next_oid := Suc (next_oid st)\<rparr>))
            | Some i \<Rightarrow>
                if list_ex (\<lambda>x. x ''_id'' = Some i) (colls st c)
                then Inl (Raised ''DuplicateKeyError'')
                else Inr (i, d, st\<lparr>colls := (colls st)(c := colls st c @ [d])\<rparr>)))"

text \<open>
  \<open>db[c].insert_many(ds)\<close>, ordered: the documents are inserted one after the other and
  the first failure stops the batch, keeping what was written before it. An empty batch
  is refused by the driver.
\<close>

fun insert_all :: "store \<Rightarrow> string \<Rightarrow> document list \<Rightarrow> (exn + val list) \<times> store" where
  "insert_all st c [] = (Inr [], st)"
| "insert_all st c (d # ds) =
     (case insert_one st c d of
        Inl e \<Rightarrow> (Inl e, st)
      | Inr (i, d', st') \<Rightarrow>
          (case insert_all st' c ds of
             (Inl e, st'') \<Rightarrow> (Inl e, st'')
           | (Inr ids, st'') \<Rightarrow> (Inr (i # ids), st'')))"

definition insert_many :: "store \<Rightarrow> string \<Rightarrow> document list \<Rightarrow> (exn + val list) \<times> store" where
  "insert_many st c ds =
     (if ds = [] then (Inl (Raised ''TypeError''), st) else insert_all st c ds)"

subsection \<open>The gateway functions of \<open>database.py\<close>\<close>

text \<open>
  Modelled from the spec: \<open>get_documents\<close> of \<open>database.py\<close>, which is not among the
  sources. The spec's \<open>find_many(collection, filter, limit)\<close> returns an ordered sequence
  of the matching records, of length at most \<open>limit\<close>, and an unreachable or uninitialised
  store surfaces as an explicit unavailable condition.
\<close>

definition get_documents :: "world \<Rightarrow> string \<Rightarrow> (string \<times> val) list \<Rightarrow> int \<Rightarrow> exn + document list" where
  "get_documents s c flt limit =
     (case db s of
        None \<Rightarrow> Inl (Raised ''StoreUnavailable'')
      | Some st \<Rightarrow>
          if reachable st then Inr (take (nat limit) (filter (matches flt) (colls st c)))
          else Inl (Raised ''StoreUnavailable''))"

text \<open>
  Modelled from the spec: \<open>create_document\<close> of \<open>database.py\<close>, which is not among the
  sources. The spec's \<open>insert_one(collection, record)\<close> stores the record and returns the
  generated identifier, which reaches the client of \<open>contact\<close> as an identifier string;
  an unreachable or uninitialised store surfaces as an explicit unavailable condition.
\<close>

definition create_document :: "env \<Rightarrow> world \<Rightarrow> string \<Rightarrow> document \<Rightarrow> (exn + val) \<times> world" where
  "create_document en s c d =
     (case db s of
        None \<Rightarrow> (Inl (Raised ''StoreUnavailable''), s)
      | Some st \<Rightarrow>
          if \<not> reachable st then (Inl (Raised ''StoreUnavailable''), s)
          else (case insert_one st c d of
                  Inl e \<Rightarrow> (Inl e, s)
                | Inr (i, d', st') \<Rightarrow> (Inr (VStr (py_str en i)), s\<lparr>db := Some st'\<rparr>)))"

section \<open>Security settings and helpers\<close>

definition JWT_SECRET :: "env \<Rightarrow> string" where
  "JWT_SECRET en = (case getenv_JWT_SECRET en of None \<Rightarrow> ''supersecretkey'' | Some v \<Rightarrow> v)"

definition JWT_ALG :: string where
  "JWT_ALG = ''HS256''"

definition JWT_EXPIRES_MIN :: int where
  "JWT_EXPIRES_MIN = 60 * 24 * 7"

text \<open>\<open>timedelta(minutes=m)\<close>, in microseconds.\<close>

definition timedelta_minutes :: "int \<Rightarrow> int" where
  "timedelta_minutes m = m * 60 * 1000000"

definition hash_password :: "env \<Rightarrow> nat \<Rightarrow> string \<Rightarrow> string + string" where
  "hash_password en n password = pwd_hash en n password"

definition verify_password :: "env \<Rightarrow> string \<Rightarrow> val \<Rightarrow> string + bool" where
  "verify_password en password hashed = pwd_verify en password hashed"

text \<open>
  \<open>create_access_token(data, expires_delta=None)\<close>. A missing \<open>expires_delta\<close> and a zero
  one are both falsy, so both give the default lifetime.
\<close>

definition create_access_token :: "env \<Rightarrow> world \<Rightarrow> document \<Rightarrow> int option \<Rightarrow> string \<times> world" where
  "create_access_token en s data expires_delta =
     (let expire = utcnow en (ticks s) +
            (case expires_delta of
               None \<Rightarrow> timedelta_minutes JWT_EXPIRES_MIN
             | Some dl \<Rightarrow> if dl = 0 then timedelta_minutes JWT_EXPIRES_MIN else dl);
          to_encode = data(''exp'' \<mapsto> VTime expire)
      in (jwt_encode en to_encode (JWT_SECRET en) JWT_ALG, s\<lparr>ticks := Suc (ticks s)\<rparr>))"

section \<open>Request and response models\<close>

text \<open>
  The request bodies after validation. A body with further fields is accepted and the
  extra fields are dropped, so these records are all a handler ever sees.
\<close>

record LoginRequest =
  email :: string
  password :: string

record RegisterRequest = LoginRequest +
  name :: string

record ContactRequest =
  c_name :: string
  c_email :: string
  subject :: "string option"
  message :: string
  meta :: "(string \<times> val) list option"

text \<open>\<open>{"token": ..., "user": ...}\<close>, \<open>{"items": ...}\<close> and \<open>{"status": ..., "id": ...}\<close>.\<close>

record auth_response =
  token :: string
  user :: document

record blogs_response =
  items :: "document list"

record contact_response =
  status :: string
  res_id :: val

definition db_unavailable :: exn where
  "db_unavailable = HTTPException 500 ''Database not available''"

text \<open>Truthiness of what \<open>find_one\<close> returned: \<open>None\<close> and the empty dict are falsy.\<close>

definition truthy :: "document option \<Rightarrow> bool" where
  "truthy r = (case r of None \<Rightarrow> False | Some d \<Rightarrow> d \<noteq> Map.empty)"

section \<open>Auth endpoints\<close>

text \<open>The dict literal \<open>user_doc\<close> of \<open>register\<close>, for a password hash and two clock reads.\<close>

definition new_user_doc :: "RegisterRequest \<Rightarrow> string \<Rightarrow> int \<Rightarrow> int \<Rightarrow> document" where
  "new_user_doc payload h t1 t2 =
     [''name'' \<mapsto> VStr (name payload),
      ''email'' \<mapsto> VStr (email payload),
      ''password_hash'' \<mapsto> VStr h,
      ''avatar_url'' \<mapsto> VNone,
      ''plan'' \<mapsto> VStr ''free'',
      ''is_active'' \<mapsto> VBool True,
      ''created_at'' \<mapsto> VTime t1,
      ''updated_at'' \<mapsto> VTime t2]"

definition register :: "env \<Rightarrow> world \<Rightarrow> RegisterRequest \<Rightarrow> (exn + auth_response) \<times> world" where
  "register en s payload =
     (case db s of
        None \<Rightarrow> (Inl db_unavailable, s)
      | Some st \<Rightarrow>
          (case find_one st ''user'' [(''email'', VStr (email payload))] of
             Inl e \<Rightarrow> (Inl e, s)
           | Inr existing \<Rightarrow>
               if truthy existing
               then (Inl (HTTPException 400 ''Email already registered''), s)
               else
                 (let s1 = s\<lparr>hash_calls := Suc (hash_calls s)\<rparr>
                  in case hash_password en (hash_calls s) (password payload) of
                       Inl cls \<Rightarrow> (Inl (Raised cls), s1)
                     | Inr h \<Rightarrow>
                         (let user_doc = new_user_doc payload h
                                (utcnow en (ticks s1)) (utcnow en (Suc (ticks s1)));
                              s2 = s1\<lparr>ticks := ticks s1 + 2\<rparr>
                          in case insert_one st ''user'' user_doc of
                               Inl e \<Rightarrow> (Inl e, s2)
                             | Inr (inserted_id, user_doc', st') \<Rightarrow>
                                 (let s3 = s2\<lparr>db := Some st'\<rparr>;
                                      (tok, s4) = create_access_token en s3
                                        [''sub'' \<mapsto> VStr (py_str en inserted_id),
                                         ''email'' \<mapsto> VStr (email payload)] None;
                                      user_doc'' = user_doc'(''password_hash'' := None);
                                      user_doc''' = user_doc''(''_id'' \<mapsto> VStr (py_str en inserted_id))
                                  in (Inr \<lparr>token = tok, user = user_doc'''\<rparr>, s4))))))"

definition invalid_credentials :: exn where
  "invalid_credentials = HTTPException 400 ''Invalid credentials''"

definition login :: "env \<Rightarrow> world \<Rightarrow> LoginRequest \<Rightarrow> (exn + auth_response) \<times> world" where
  "login en s payload =
     (case db s of
        None \<Rightarrow> (Inl db_unavailable, s)
      | Some st \<Rightarrow>
          (case find_one st ''user'' [(''email'', VStr (email payload))] of
             Inl e \<Rightarrow> (Inl e, s)
           | Inr found \<Rightarrow>
               if \<not> truthy found then (Inl invalid_credentials, s)
               else
                 (let u = the found
                  in case verify_password en (password payload)
                            (py_get_default u ''password_hash'' (VStr '''')) of
                       Inl cls \<Rightarrow> (Inl (Raised cls), s)
                     | Inr ok \<Rightarrow>
                         if \<not> ok then (Inl invalid_credentials, s)
                         else
                           (let (tok, s1) = create_access_token en s
                                  [''sub'' \<mapsto> VStr (py_str en (py_get u ''_id'')),
                                   ''email'' \<mapsto> py_get u ''email''] None
                            in case u ''_id'' of
                                 None \<Rightarrow> (Inl (Raised ''KeyError''), s1)
                               | Some i \<Rightarrow>
                                   (let u' = u(''_id'' \<mapsto> VStr (py_str en i));
                                        u'' = u'(''password_hash'' := None)
                                    in (Inr \<lparr>token = tok, user = u''\<rparr>, s1))))))"

section \<open>Blog endpoint\<close>

text \<open>One demo post; \<open>t\<close> is the index of its first clock read.\<close>

definition seed_post :: "env \<Rightarrow> nat \<Rightarrow> string \<Rightarrow> string \<Rightarrow> string \<Rightarrow> string list \<Rightarrow> document" where
  "seed_post en t title slug excerpt tags =
     [''title'' \<mapsto> VStr title,
      ''slug'' \<mapsto> VStr slug,
      ''excerpt'' \<mapsto> VStr excerpt,
      ''content'' \<mapsto> VStr ''Long form content...'',
      ''author'' \<mapsto> VStr ''Team'',
      ''tags'' \<mapsto> VList (map VStr tags),
      ''published'' \<mapsto> VBool True,
      ''published_at'' \<mapsto> VTime (utcnow en t),
      ''cover_image'' \<mapsto> VNone,
      ''created_at'' \<mapsto> VTime (utcnow en (t + 1)),
      ''updated_at'' \<mapsto> VTime (utcnow en (t + 2))]"

definition seed_posts :: "env \<Rightarrow> nat \<Rightarrow> document list" where
  "seed_posts en t =
     [seed_post en t ''Designing Trust in Fintech'' ''designing-trust-in-fintech''
        ''How micro-interactions and clear copy build confidence in digital banking.''
        [''design'', ''fintech''],
      seed_post en (t + 3) ''Pricing Psychology 101'' ''pricing-psychology-101''
        ''Make tiers that guide choices without pressure.''
        [''pricing'', ''growth''],
      seed_post en (t + 6) ''Your First 100 Users'' ''your-first-100-users''
        ''Practical channels to get traction for your SaaS.''
        [''growth'']]"

text \<open>
  The seeding block of \<open>list_blogs\<close>: with a count of zero the three demo posts are built
  (nine clock reads) and inserted in one batch.
\<close>

definition seed_if_empty :: "env \<Rightarrow> world \<Rightarrow> store \<Rightarrow> nat \<Rightarrow> exn option \<times> world" where
  "seed_if_empty en s st count =
     (if count = 0
      then (let posts = seed_posts en (ticks s);
                s1 = s\<lparr>ticks := ticks s + 9\<rparr>
            in if posts \<noteq> []
               then (case insert_many st ''blogpost'' posts of
                       (Inl e, st') \<Rightarrow> (Some e, s1\<lparr>db := Some st'\<rparr>)
                     | (Inr ids, st') \<Rightarrow> (None, s1\<lparr>db := Some st'\<rparr>))
               else (None, s1))
      else (None, s))"

definition list_blogs :: "env \<Rightarrow> world \<Rightarrow> int \<Rightarrow> (exn + blogs_response) \<times> world" where
  "list_blogs en s limit =
     (case db s of
        None \<Rightarrow> (Inl db_unavailable, s)
      | Some st \<Rightarrow>
          (case count_documents st ''blogpost'' [] of
             Inl e \<Rightarrow> (Inl e, s)
           | Inr count \<Rightarrow>
               (case seed_if_empty en s st count of
                  (Some e, s1) \<Rightarrow> (Inl e, s1)
                | (None, s1) \<Rightarrow>
                    (case get_documents s1 ''blogpost'' [(''published'', VBool True)] limit of
                       Inl e \<Rightarrow> (Inl e, s1)
                     | Inr docs \<Rightarrow>
                         (Inr \<lparr>items = map (\<lambda>d. d(''_id'' \<mapsto> VStr (py_str en (py_get d ''_id''))))
                                             docs\<rparr>, s1)))))"

section \<open>Contact endpoint\<close>

text \<open>\<open>payload.dict()\<close>: every field of the model, the unset optional ones as \<open>None\<close>.\<close>

definition contact_dict :: "ContactRequest \<Rightarrow> document" where
  "contact_dict payload =
     [''name'' \<mapsto> VStr (c_name payload),
      ''email'' \<mapsto> VStr (c_email payload),
      ''subject'' \<mapsto> (case subject payload of None \<Rightarrow> VNone | Some x \<Rightarrow> VStr x),
      ''message'' \<mapsto> VStr (message payload),
      ''meta'' \<mapsto> (case meta payload of None \<Rightarrow> VNone | Some m \<Rightarrow> VDict m)]"

definition contact :: "env \<Rightarrow> world \<Rightarrow> ContactRequest \<Rightarrow> (exn + contact_response) \<times> world" where
  "contact en s payload =
     (case db s of
        None \<Rightarrow> (Inl db_unavailable, s)
      | Some st \<Rightarrow>
          (let doc = contact_dict payload;
               doc1 = doc(''created_at'' \<mapsto> VTime (utcnow en (ticks s)));
               doc2 = doc1(''updated_at'' \<mapsto> VTime (utcnow en (Suc (ticks s))));
               s1 = s\<lparr>ticks := ticks s + 2\<rparr>
           in case create_document en s1 ''contactmessage'' doc2 of
                (Inl e, s2) \<Rightarrow> (Inl e, s2)
              | (Inr i, s2) \<Rightarrow> (Inr \<lparr>status = ''ok'', res_id = i\<rparr>, s2)))"

section \<open>Reference points for the properties\<close>

text \<open>
  The claims mapping with exactly the fields \<open>sub\<close>, \<open>email\<close> and \<open>exp\<close>, for an identifier
  \<open>i\<close>, an email value and an issuance time \<open>t\<close>: \<open>sub\<close> is the identifier as a string and
  \<open>exp\<close> lies seven days (in microseconds) after \<open>t\<close>.
\<close>

definition token_claims :: "env \<Rightarrow> val \<Rightarrow> val \<Rightarrow> int \<Rightarrow> document" where
  "token_claims en i em t =
     [''sub'' \<mapsto> VStr (py_str en i), ''email'' \<mapsto> em,
      ''exp'' \<mapsto> VTime (t + 7 * 24 * 60 * 60 * 1000000)]"

text \<open>
  What a batch of documents without \<open>_id\<close> looks like once stored: each got the next
  \<open>ObjectId\<close> of the supply, starting at \<open>n\<close>.
\<close>

fun with_ids :: "nat \<Rightarrow> document list \<Rightarrow> document list" where
  "with_ids n [] = []"
| "with_ids n (d # ds) = d(''_id'' \<mapsto> VOid n) # with_ids (Suc n) ds"

text \<open>
  A small concrete instance of the collaborators, for running the handlers. Its hasher
  has the shape of the configured scheme: a fixed-length hash string with a scheme
  prefix, computed from a bounded prefix of the password. Its \<open>verify\<close> behaves as
  \<open>CryptContext.verify\<close> does on what it is given: on a string that no configured scheme
  identifies (here: one without the prefix) it raises \<open>UnknownHashError\<close>, on \<open>None\<close> it
  returns \<open>False\<close>, and on a value that is no string it raises a \<open>TypeError\<close>.
\<close>

definition demo_digest :: "string \<Rightarrow> string" where
  "demo_digest p = ''$2b$'' @ take 4 (p @ ''....'')"

definition demo_verify :: "string \<Rightarrow> val \<Rightarrow> string + bool" where
  "demo_verify p h =
     (case h of
        VStr x \<Rightarrow> if take 4 x = ''$2b$'' then Inr (x = demo_digest p) else Inl ''UnknownHashError''
      | VNone \<Rightarrow> Inr False
      | _ \<Rightarrow> Inl ''TypeError'')"

definition demo_str :: "val \<Rightarrow> string" where
  "demo_str v = (case v of VStr x \<Rightarrow> x | VOid n \<Rightarrow> ''oid'' @ replicate n (CHR ''+'') | _ \<Rightarrow> ''None'')"

definition demo_env :: env where
  "demo_env =
     \<lparr>py_str = demo_str,
      pwd_hash = (\<lambda>n p. Inr (demo_digest p)),
      pwd_verify = demo_verify,
      jwt_encode = (\<lambda>c k a. a @ ''.'' @ demo_str (py_get c ''sub'')),
      getenv_JWT_SECRET = None,
      utcnow = (\<lambda>n. int n)\<rparr>"

definition demo_store :: store where
  "demo_store = \<lparr>reachable = True, colls = (\<lambda>c. []), next_oid = 0\<rparr>"

definition demo_world :: world where
  "demo_world = \<lparr>db = Some demo_store, ticks = 0, hash_calls = 0\<rparr>"

definition demo_register :: RegisterRequest where
  "demo_register = \<lparr>email = ''ann@example.com'', password = ''s3cret'', name = ''Ann''\<rparr>"

definition demo_login :: LoginRequest where
  "demo_login = \<lparr>email = ''ann@example.com'', password = ''s3cret''\<rparr>"

definition demo_contact :: ContactRequest where
  "demo_contact =
     \<lparr>c_name = ''Ann'', c_email = ''ann@example.com'', subject = None,
      message = ''hello'', meta = None\<rparr>"

text \<open>The demo world after \<open>demo_register\<close> has been registered in it.\<close>

definition registered_store :: store where
  "registered_store =
     demo_store\<lparr>colls := (colls demo_store)(''user'' :=
        [(new_user_doc demo_register (demo_digest ''s3cret'') 0 1)(''_id'' \<mapsto> VOid 0)]),
      next_oid := 1\<rparr>"

definition registered_world :: world where
  "registered_world = \<lparr>db = Some registered_store, ticks = 3, hash_calls = 1\<rparr>"

text \<open>A store whose only user record was written without a \<open>password_hash\<close>.\<close>

definition legacy_user :: document where
  "legacy_user = [''email'' \<mapsto> VStr ''ann@example.com'', ''_id'' \<mapsto> VOid 0]"

definition legacy_store :: store where
  "legacy_store = demo_store\<lparr>colls := (colls demo_store)(''user'' := [legacy_user]),
                             next_oid := 1\<rparr>"

definition legacy_world :: world where
  "legacy_world = \<lparr>db = Some legacy_store, ticks = 0, hash_calls = 0\<rparr>"

text \<open>The process with no store (\<open>db is None\<close>) and with a store that cannot be reached.\<close>

definition no_db_world :: world where
  "no_db_world = \<lparr>db = None, ticks = 0, hash_calls = 0\<rparr>"

definition down_world :: world where
  "down_world = \<lparr>db = Some (demo_store\<lparr>reachable := False\<rparr>), ticks = 0, hash_calls = 0\<rparr>"

section \<open>The store operations\<close>

lemma find_matches_field:
  "List.find (matches [(k, v)]) ds = Some d \<Longrightarrow> d k = Some v"
  by (auto simp: find_Some_iff matches_def)

lemma find_exists:
  "d \<in> set ds \<Longrightarrow> d k = Some v \<Longrightarrow> \<exists>d'. List.find (matches [(k, v)]) ds = Some d'"
  by (cases "List.find (matches [(k, v)]) ds") (auto simp: find_None_iff matches_def)

lemma truthy_field: "d k = Some v \<Longrightarrow> truthy (Some d)"
  by (auto simp: truthy_def)

lemma truthy_find:
  "truthy (List.find (matches [(k, v)]) ds) \<longleftrightarrow> List.find (matches [(k, v)]) ds \<noteq> None"
  by (cases "List.find (matches [(k, v)]) ds") (auto simp: truthy_def dest: find_matches_field)

lemma find_none_fresh:
  "List.find (matches [(k, v)]) ds = None \<longleftrightarrow> (\<forall>d\<in>set ds. d k \<noteq> Some v)"
  by (auto simp: find_None_iff matches_def)

lemma find_snoc:
  "List.find P (xs @ [y]) =
     (case List.find P xs of None \<Rightarrow> (if P y then Some y else None) | Some x \<Rightarrow> Some x)"
  by (induction xs) auto

section \<open>Registration\<close>

lemma create_access_token_default:
  "create_access_token en s [''sub'' \<mapsto> VStr (py_str en i), ''email'' \<mapsto> em] None =
     (jwt_encode en (token_claims en i em (utcnow en (ticks s))) (JWT_SECRET en) JWT_ALG,
      s\<lparr>ticks := Suc (ticks s)\<rparr>)"
  by (simp add: create_access_token_def token_claims_def timedelta_minutes_def JWT_EXPIRES_MIN_def)

text \<open>What a registration that gets through returns, and the world it leaves.\<close>

lemma register_ok:
  assumes "db s = Some st" and "reachable st"
    and "List.find (matches [(''email'', VStr (email payload))]) (colls st ''user'') = None"
    and "hash_password en (hash_calls s) (password payload) = Inr h"
  shows "register en s payload =
    (Inr \<lparr>token = jwt_encode en
              (token_claims en (VOid (next_oid st)) (VStr (email payload)) (utcnow en (ticks s + 2)))
              (JWT_SECRET en) JWT_ALG,
           user = (new_user_doc payload h (utcnow en (ticks s)) (utcnow en (Suc (ticks s))))
                    (''password_hash'' := None, ''_id'' \<mapsto> VStr (py_str en (VOid (next_oid st))))\<rparr>,
     s\<lparr>db := Some (st\<lparr>colls := (colls st)(''user'' := colls st ''user'' @
                 [(new_user_doc payload h (utcnow en (ticks s)) (utcnow en (Suc (ticks s))))
                    (''_id'' \<mapsto> VOid (next_oid st))]),
               next_oid := Suc (next_oid st)\<rparr>),
       ticks := ticks s + 3, hash_calls := Suc (hash_calls s)\<rparr>)"
proof -
  have noid: "new_user_doc payload h t1 t2 ''_id'' = None" for t1 t2
    by (simp add: new_user_doc_def)
  show ?thesis
    using assms
    by (simp add: register_def find_one_def truthy_def insert_one_def noid Let_def
        create_access_token_default)
qed

text \<open>A registration that returns a response went through every check.\<close>

lemma register_InrD:
  assumes "register en s payload = (Inr r, s')"
  shows "\<exists>st h. db s = Some st \<and> reachable st
      \<and> List.find (matches [(''email'', VStr (email payload))]) (colls st ''user'') = None
      \<and> hash_password en (hash_calls s) (password payload) = Inr h"
proof -
  obtain st where st: "db s = Some st"
    using assms by (cases "db s") (auto simp: register_def)
  have r: "reachable st"
    using assms st by (auto simp: register_def find_one_def split: if_splits)
  have f: "List.find (matches [(''email'', VStr (email payload))]) (colls st ''user'') = None"
    using assms st r by (auto simp: register_def find_one_def truthy_find split: if_splits)
  obtain h where "hash_password en (hash_calls s) (password payload) = Inr h"
    using assms st r f
    by (cases "hash_password en (hash_calls s) (password payload)")
       (auto simp: register_def find_one_def truthy_def Let_def)
  with st r f show ?thesis by blast
qed

text \<open>The first registration in the demo world.\<close>

lemma demo_hash: "hash_password demo_env n p = Inr (demo_digest p)"
  by (simp add: hash_password_def demo_env_def)

lemma demo_find_none:
  "List.find (matches [(''email'', VStr (email demo_register))]) (colls demo_store ''user'') = None"
  by (simp add: demo_store_def)

lemma demo_world_db: "db demo_world = Some demo_store" "reachable demo_store"
  by (simp_all add: demo_world_def demo_store_def)

lemma demo_register_world:
  "snd (register demo_env demo_world demo_register) = registered_world"
  using register_ok [OF demo_world_db demo_find_none demo_hash]
  by (simp add: demo_world_def registered_world_def registered_store_def demo_store_def
      demo_env_def demo_register_def)

lemma registered_world_db:
  "db registered_world = Some registered_store" "reachable registered_store"
  by (simp_all add: registered_world_def registered_store_def demo_store_def)

text \<open>
  C2: in every state in which a User with the given email exists (and the store answers),
  \<open>register\<close> with that email fails with HTTP 400 "Email already registered" and leaves
  the world, hence the user collection, exactly as it was: no second User is inserted.
\<close>

theorem register_conflict:
  assumes "db s = Some st" and "reachable st"
    and "d \<in> set (colls st ''user'')" and "d ''email'' = Some (VStr (email payload))"
  shows "register en s payload = (Inl (HTTPException 400 ''Email already registered''), s)"
proof -
  obtain d' where f:
    "List.find (matches [(''email'', VStr (email payload))]) (colls st ''user'') = Some d'"
    using find_exists [OF assms(3,4)] by blast
  then have "truthy (Some d')"
    using find_matches_field truthy_field by blast
  with f assms(1,2) show ?thesis
    by (simp add: register_def find_one_def)
qed

text \<open>Registering \<open>demo_register\<close> a second time, in the world its registration left.\<close>

theorem register_conflict_witness:
  "register demo_env registered_world demo_register =
     (Inl (HTTPException 400 ''Email already registered''), registered_world)"
proof -
  let ?d = "(new_user_doc demo_register (demo_digest ''s3cret'') 0 1)(''_id'' \<mapsto> VOid 0)"
  have 3: "?d \<in> set (colls registered_store ''user'')"
    by (simp add: registered_store_def)
  have 4: "?d ''email'' = Some (VStr (email demo_register))"
    by (simp add: new_user_doc_def)
  show ?thesis
    by (rule register_conflict [OF registered_world_db 3 4])
qed

section \<open>Login\<close>

text \<open>What a login that gets through returns, and the world it leaves.\<close>

lemma login_ok:
  assumes "db s = Some st" and "reachable st"
    and f: "List.find (matches [(''email'', VStr (email payload))]) (colls st ''user'') = Some u"
    and "verify_password en (password payload) (py_get_default u ''password_hash'' (VStr '''')) = Inr True"
    and "u ''_id'' = Some i"
  shows "login en s payload =
    (Inr \<lparr>token = jwt_encode en (token_claims en i (VStr (email payload)) (utcnow en (ticks s)))
                     (JWT_SECRET en) JWT_ALG,
           user = u(''_id'' \<mapsto> VStr (py_str en i), ''password_hash'' := None)\<rparr>,
     s\<lparr>ticks := Suc (ticks s)\<rparr>)"
proof -
  have e: "u ''email'' = Some (VStr (email payload))"
    using f by (rule find_matches_field)
  then have t: "truthy (Some u)"
    by (rule truthy_field)
  show ?thesis
    using assms(1,2,4,5) f t e
    by (simp add: login_def find_one_def py_get_def create_access_token_default)
qed

text \<open>A login that returns a response found a user, verified the password and read \<open>_id\<close>.\<close>

lemma login_InrD:
  assumes "login en s payload = (Inr r, s')"
  shows "\<exists>st u i. db s = Some st \<and> reachable st
      \<and> List.find (matches [(''email'', VStr (email payload))]) (colls st ''user'') = Some u
      \<and> verify_password en (password payload) (py_get_default u ''password_hash'' (VStr '''')) = Inr True
      \<and> u ''_id'' = Some i"
proof -
  obtain st where st: "db s = Some st"
    using assms by (cases "db s") (auto simp: login_def db_unavailable_def)
  have r: "reachable st"
    using assms st by (auto simp: login_def find_one_def split: if_splits)
  obtain u where f: "List.find (matches [(''email'', VStr (email payload))]) (colls st ''user'') = Some u"
    using assms st r
    by (cases "List.find (matches [(''email'', VStr (email payload))]) (colls st ''user'')")
       (auto simp: login_def find_one_def truthy_def)
  then have t: "truthy (Some u)"
    using find_matches_field truthy_field by blast
  have v: "verify_password en (password payload) (py_get_default u ''password_hash'' (VStr '''')) = Inr True"
    using assms st r f t
    by (cases "verify_password en (password payload) (py_get_default u ''password_hash'' (VStr ''''))")
       (auto simp: login_def find_one_def split: if_splits)
  obtain i where "u ''_id'' = Some i"
    using assms st r f t v
    by (cases "u ''_id''") (auto simp: login_def find_one_def split: prod.splits)
  with st r f v show ?thesis by blast
qed

text \<open>
  C1: for every registration payload whose email matches no stored User, with a store
  that answers, a hasher that hashes the password into a hash its own \<open>verify\<close> accepts
  and a token encoder whose output is never empty, \<open>register\<close> and then \<open>login\<close> with
  the same email and password both succeed, both tokens are non-empty and neither user
  payload has a \<open>password_hash\<close> field.
\<close>

theorem register_then_login:
  assumes "db s = Some st" and "reachable st"
    and fresh: "\<forall>d\<in>set (colls st ''user''). d ''email'' \<noteq> Some (VStr (email payload))"
    and hashed: "hash_password en (hash_calls s) (password payload) = Inr h"
    and verified: "verify_password en (password payload) (VStr h) = Inr True"
    and nonempty: "\<forall>c. jwt_encode en c (JWT_SECRET en) JWT_ALG \<noteq> []"
  shows "\<exists>r1 s1 r2 s2.
      register en s payload = (Inr r1, s1)
    \<and> login en s1 \<lparr>email = email payload, password = password payload\<rparr> = (Inr r2, s2)
    \<and> token r1 \<noteq> [] \<and> token r2 \<noteq> []
    \<and> user r1 ''password_hash'' = None \<and> user r2 ''password_hash'' = None"
proof -
  let ?doc = "(new_user_doc payload h (utcnow en (ticks s)) (utcnow en (Suc (ticks s))))
                (''_id'' \<mapsto> VOid (next_oid st))"
  let ?st1 = "st\<lparr>colls := (colls st)(''user'' := colls st ''user'' @ [?doc]),
                 next_oid := Suc (next_oid st)\<rparr>"
  let ?s1 = "s\<lparr>db := Some ?st1, ticks := ticks s + 3, hash_calls := Suc (hash_calls s)\<rparr>"
  let ?lp = "\<lparr>email = email payload, password = password payload\<rparr>"
  have none: "List.find (matches [(''email'', VStr (email payload))]) (colls st ''user'') = None"
    using fresh by (simp add: find_none_fresh)
  note reg = register_ok [OF assms(1,2) none hashed]
  have m: "matches [(''email'', VStr (email payload))] ?doc"
    by (simp add: matches_def new_user_doc_def)
  have f: "List.find (matches [(''email'', VStr (email ?lp))]) (colls ?st1 ''user'') = Some ?doc"
    using none m by (simp add: find_snoc)
  have v: "verify_password en (password ?lp) (py_get_default ?doc ''password_hash'' (VStr '''')) = Inr True"
    using verified by (simp add: py_get_default_def new_user_doc_def)
  have i: "?doc ''_id'' = Some (VOid (next_oid st))"
    by simp
  have d: "db ?s1 = Some ?st1" "reachable ?st1"
    using assms(2) by simp_all
  note log = login_ok [OF d f v i]
  show ?thesis
    using reg log nonempty by (simp add: new_user_doc_def)
qed

text \<open>Registering and logging in \<open>demo_register\<close> in the empty demo world.\<close>

theorem register_then_login_witness:
  "\<exists>r1 s1 r2 s2.
      register demo_env demo_world demo_register = (Inr r1, s1)
    \<and> login demo_env s1 demo_login = (Inr r2, s2)
    \<and> token r1 \<noteq> [] \<and> token r2 \<noteq> []
    \<and> user r1 ''password_hash'' = None \<and> user r2 ''password_hash'' = None"
proof -
  have fresh: "\<forall>d\<in>set (colls demo_store ''user''). d ''email'' \<noteq> Some (VStr (email demo_register))"
    by (simp add: demo_store_def)
  have v: "verify_password demo_env (password demo_register) (VStr (demo_digest (password demo_register))) = Inr True"
    by (simp add: verify_password_def demo_env_def demo_verify_def demo_digest_def)
  have n: "\<forall>c. jwt_encode demo_env c (JWT_SECRET demo_env) JWT_ALG \<noteq> []"
    by (simp add: demo_env_def)
  have l: "\<lparr>email = email demo_register, password = password demo_register\<rparr> = demo_login"
    by (simp add: demo_register_def demo_login_def)
  show ?thesis
    using register_then_login [OF demo_world_db fresh demo_hash v n] l by simp
qed

text \<open>
  Where \<open>verify\<close> returns its verdict, a login with an unknown email and a login with a
  rejected password end in the same error.
\<close>

lemma login_rejections_identical:
  assumes "db s1 = Some st1" and "reachable st1" and "db s2 = Some st2" and "reachable st2"
    and unknown: "\<forall>d\<in>set (colls st1 ''user''). d ''email'' \<noteq> Some (VStr (email p1))"
    and known: "List.find (matches [(''email'', VStr (email p2))]) (colls st2 ''user'') = Some u"
    and wrong: "verify_password en (password p2)
                  (py_get_default u ''password_hash'' (VStr '''')) = Inr False"
  shows "fst (login en s1 p1) = Inl (HTTPException 400 ''Invalid credentials'')
       \<and> fst (login en s2 p2) = fst (login en s1 p1)"
proof -
  have none: "List.find (matches [(''email'', VStr (email p1))]) (colls st1 ''user'') = None"
    using unknown by (simp add: find_none_fresh)
  have a: "login en s1 p1 = (Inl invalid_credentials, s1)"
    using assms(1,2) none by (simp add: login_def find_one_def truthy_def)
  have "truthy (Some u)"
    using known find_matches_field truthy_field by blast
  then have b: "login en s2 p2 = (Inl invalid_credentials, s2)"
    using assms(3,4) known wrong by (simp add: login_def find_one_def)
  show ?thesis
    using a b by (simp add: invalid_credentials_def)
qed

section \<open>Server-side defaults\<close>

text \<open>
  C10: every registration that succeeds appends one User record to the collection, and
  that record has \<open>plan = "free"\<close>, \<open>is_active = True\<close> and \<open>avatar_url = None\<close>, whatever the
  request carried: a \<open>RegisterRequest\<close> has only a name, an email and a password.
\<close>

theorem register_defaults:
  assumes "register en s payload = (Inr r, s')"
  shows "\<exists>st st' d. db s = Some st \<and> db s' = Some st'
      \<and> colls st' ''user'' = colls st ''user'' @ [d]
      \<and> d ''plan'' = Some (VStr ''free'')
      \<and> d ''is_active'' = Some (VBool True)
      \<and> d ''avatar_url'' = Some VNone"
proof -
  obtain st h where h: "db s = Some st" "reachable st"
      "List.find (matches [(''email'', VStr (email payload))]) (colls st ''user'') = None"
      "hash_password en (hash_calls s) (password payload) = Inr h"
    using register_InrD [OF assms] by blast
  show ?thesis
    using register_ok [OF h] assms h(1) by (auto simp: new_user_doc_def)
qed

text \<open>The record stored for \<open>demo_register\<close>.\<close>

theorem register_defaults_witness:
  "\<exists>st st' d. db demo_world = Some st
      \<and> db (snd (register demo_env demo_world demo_register)) = Some st'
      \<and> colls st' ''user'' = colls st ''user'' @ [d]
      \<and> d ''plan'' = Some (VStr ''free'')
      \<and> d ''is_active'' = Some (VBool True)
      \<and> d ''avatar_url'' = Some VNone"
proof -
  obtain r where "register demo_env demo_world demo_register
       = (Inr r, snd (register demo_env demo_world demo_register))"
    using register_ok [OF demo_world_db demo_find_none demo_hash] by simp
  then show ?thesis
    by (rule register_defaults)
qed

section \<open>Listing and seeding blog posts\<close>

lemma insert_one_fresh:
  assumes "reachable st" and "d ''_id'' = None"
  shows "insert_one st c d =
    Inr (VOid (next_oid st), d(''_id'' \<mapsto> VOid (next_oid st)),
         st\<lparr>colls := (colls st)(c := colls st c @ [d(''_id'' \<mapsto> VOid (next_oid st))]),
            next_oid := Suc (next_oid st)\<rparr>)"
  using assms by (simp add: insert_one_def Let_def)

lemma insert_all_fresh:
  assumes "reachable st" and "\<forall>d\<in>set ds. d ''_id'' = None"
  shows "\<exists>ids. insert_all st c ds =
    (Inr ids,
     st\<lparr>colls := (colls st)(c := colls st c @ with_ids (next_oid st) ds),
        next_oid := next_oid st + length ds\<rparr>)"
  using assms
proof (induction ds arbitrary: st)
  case Nil
  then show ?case by simp
next
  case (Cons d ds)
  let ?d' = "d(''_id'' \<mapsto> VOid (next_oid st))"
  let ?st' = "st\<lparr>colls := (colls st)(c := colls st c @ [?d']),
                 next_oid := Suc (next_oid st)\<rparr>"
  let ?st'' = "st\<lparr>colls := (colls st)(c := colls st c @ with_ids (next_oid st) (d # ds)),
                  next_oid := next_oid st + length (d # ds)\<rparr>"
  have one: "insert_one st c d = Inr (VOid (next_oid st), ?d', ?st')"
    using Cons.prems by (simp add: insert_one_fresh)
  have r: "reachable ?st'" using Cons.prems by simp
  have ids: "\<forall>x\<in>set ds. x ''_id'' = None" using Cons.prems by simp
  have "?st'\<lparr>colls := (colls ?st')(c := colls ?st' c @ with_ids (next_oid ?st') ds),
              next_oid := next_oid ?st' + length ds\<rparr> = ?st''"
    by simp
  with Cons.IH [OF r ids] obtain ids where ih: "insert_all ?st' c ds = (Inr ids, ?st'')"
    by metis
  have "insert_all st c (d # ds) = (Inr (VOid (next_oid st) # ids), ?st'')"
    using ih by (simp add: one)
  then show ?case by blast
qed

lemma seed_post_no_id: "seed_post en t a b c tg ''_id'' = None"
  by (simp add: seed_post_def)

lemma seed_posts_no_id: "\<forall>d\<in>set (seed_posts en t). d ''_id'' = None"
  by (simp add: seed_posts_def seed_post_no_id)

lemma seed_posts_length: "length (seed_posts en t) = 3"
  by (simp add: seed_posts_def)

lemma with_ids_length: "length (with_ids n ds) = length ds"
  by (induction ds arbitrary: n) auto

lemma with_ids_field:
  "k \<noteq> ''_id'' \<Longrightarrow> \<forall>d\<in>set ds. d k = Some v \<Longrightarrow> \<forall>d\<in>set (with_ids n ds). d k = Some v"
  by (induction ds arbitrary: n) auto

lemma seed_posts_published: "\<forall>d\<in>set (seed_posts en t). d ''published'' = Some (VBool True)"
  by (simp add: seed_posts_def seed_post_def)

lemma seeded_published:
  "\<forall>d\<in>set (with_ids n (seed_posts en t)). d ''published'' = Some (VBool True)"
  by (rule with_ids_field [OF _ seed_posts_published]) simp

lemma filter_all: "\<forall>d\<in>set ds. P d \<Longrightarrow> filter P ds = ds"
  by (induction ds) auto


lemma matches_nil: "matches [] d"
  by (simp add: matches_def)

lemma matches_published:
  "matches [(''published'', VBool True)] d \<longleftrightarrow> d ''published'' = Some (VBool True)"
  by (simp add: matches_def)

lemma count_all:
  "reachable st \<Longrightarrow> count_documents st c [] = Inr (length (colls st c))"
  by (simp add: count_documents_def matches_nil)

lemma seed_if_empty_zero:
  assumes "reachable st" and "colls st ''blogpost'' = []"
  shows "seed_if_empty en s st 0 =
    (None, s\<lparr>db := Some (st\<lparr>colls := (colls st)(''blogpost'' :=
                              with_ids (next_oid st) (seed_posts en (ticks s))),
                            next_oid := next_oid st + 3\<rparr>),
             ticks := ticks s + 9\<rparr>)"
proof -
  have ne: "seed_posts en (ticks s) \<noteq> []"
    by (simp add: seed_posts_def)
  obtain ids where "insert_all st ''blogpost'' (seed_posts en (ticks s)) =
      (Inr ids, st\<lparr>colls := (colls st)(''blogpost'' := colls st ''blogpost'' @
                        with_ids (next_oid st) (seed_posts en (ticks s))),
                  next_oid := next_oid st + length (seed_posts en (ticks s))\<rparr>)"
    using insert_all_fresh [OF assms(1) seed_posts_no_id] by blast
  then show ?thesis
    using ne assms(2) by (simp add: seed_if_empty_def insert_many_def seed_posts_length Let_def)
qed

lemma list_blogs_first:
  assumes "db s = Some st" and "reachable st" and "colls st ''blogpost'' = []"
  shows "list_blogs en s limit =
    (Inr \<lparr>items = map (\<lambda>d. d(''_id'' \<mapsto> VStr (py_str en (py_get d ''_id''))))
                     (take (nat limit) (with_ids (next_oid st) (seed_posts en (ticks s))))\<rparr>,
     s\<lparr>db := Some (st\<lparr>colls := (colls st)(''blogpost'' :=
                        with_ids (next_oid st) (seed_posts en (ticks s))),
                      next_oid := next_oid st + 3\<rparr>),
       ticks := ticks s + 9\<rparr>)"
proof -
  have f: "filter (matches [(''published'', VBool True)])
             (with_ids (next_oid st) (seed_posts en (ticks s)))
           = with_ids (next_oid st) (seed_posts en (ticks s))"
    by (rule filter_all) (simp add: matches_published seeded_published)
  show ?thesis
    using assms
    by (simp add: list_blogs_def count_all seed_if_empty_zero get_documents_def f)
qed

lemma list_blogs_later:
  assumes "db s = Some st" and "reachable st" and "colls st ''blogpost'' \<noteq> []"
  shows "list_blogs en s limit =
    (Inr \<lparr>items = map (\<lambda>d. d(''_id'' \<mapsto> VStr (py_str en (py_get d ''_id''))))
                     (take (nat limit)
                        (filter (matches [(''published'', VBool True)]) (colls st ''blogpost'')))\<rparr>,
     s)"
  using assms
  by (simp add: list_blogs_def count_all seed_if_empty_def get_documents_def)

lemma list_blogs_InrD:
  assumes "list_blogs en s limit = (Inr b, s')"
  shows "\<exists>st'. db s' = Some st' \<and>
     items b = map (\<lambda>d. d(''_id'' \<mapsto> VStr (py_str en (py_get d ''_id''))))
                 (take (nat limit)
                    (filter (matches [(''published'', VBool True)]) (colls st' ''blogpost'')))"
proof -
  obtain st where st: "db s = Some st"
    using assms by (cases "db s") (auto simp: list_blogs_def)
  have r: "reachable st"
    using assms st by (auto simp: list_blogs_def count_documents_def split: if_splits)
  show ?thesis
  proof (cases "colls st ''blogpost'' = []")
    case True
    have f: "filter (matches [(''published'', VBool True)])
               (with_ids (next_oid st) (seed_posts en (ticks s)))
             = with_ids (next_oid st) (seed_posts en (ticks s))"
      by (rule filter_all) (simp add: matches_published seeded_published)
    show ?thesis
      using list_blogs_first [OF st r True, of en limit] assms by (auto simp: f)
  next
    case False
    show ?thesis
      using list_blogs_later [OF st r False, of en limit] assms st by auto
  qed
qed


lemma stringified_published:
  "\<forall>d\<in>set ds. d ''published'' = Some (VBool True) \<Longrightarrow>
   \<forall>d\<in>set (map (\<lambda>d. d(''_id'' \<mapsto> VStr (py_str en (py_get d ''_id'')))) (take n ds)).
      d ''published'' = Some (VBool True)"
  by (auto dest: in_set_takeD)

text \<open>
  C6, as the code has it: with a store that answers and an empty BlogPost collection,
  \<open>list_blogs\<close> with a limit of at least 3 (the default is 6) inserts exactly the three
  demo records, all published, and returns exactly 3 items, all published and no more
  than the limit. The world it leaves is a fixed point: every later call, with any limit,
  inserts nothing and changes nothing; with a limit of at least 3 it returns the same 3
  items, with a non-negative limit never more than the limit, and always published items
  only.
\<close>

theorem list_blogs_seeds_once:
  assumes "db s = Some st" and "reachable st" and "colls st ''blogpost'' = []"
    and "3 \<le> limit"
  shows "\<exists>its s1 st1.
      list_blogs en s limit = (Inr \<lparr>items = its\<rparr>, s1)
    \<and> db s1 = Some st1
    \<and> colls st1 ''blogpost'' = with_ids (next_oid st) (seed_posts en (ticks s))
    \<and> length (colls st1 ''blogpost'') = 3
    \<and> (\<forall>d\<in>set (colls st1 ''blogpost''). d ''published'' = Some (VBool True))
    \<and> length its = 3
    \<and> (\<forall>d\<in>set its. d ''published'' = Some (VBool True))
    \<and> int (length its) \<le> limit
    \<and> (\<forall>l. \<exists>its'. list_blogs en s1 l = (Inr \<lparr>items = its'\<rparr>, s1)
            \<and> (3 \<le> l \<longrightarrow> its' = its)
            \<and> (0 \<le> l \<longrightarrow> int (length its') \<le> l)
            \<and> (\<forall>d\<in>set its'. d ''published'' = Some (VBool True)))"
proof -
  let ?f = "\<lambda>d. d(''_id'' \<mapsto> VStr (py_str en (py_get d ''_id'')))"
  let ?seeded = "with_ids (next_oid st) (seed_posts en (ticks s))"
  let ?st1 = "st\<lparr>colls := (colls st)(''blogpost'' := ?seeded), next_oid := next_oid st + 3\<rparr>"
  let ?s1 = "s\<lparr>db := Some ?st1, ticks := ticks s + 9\<rparr>"
  have len: "length ?seeded = 3"
    by (simp add: with_ids_length seed_posts_length)
  have pub: "\<forall>d\<in>set ?seeded. d ''published'' = Some (VBool True)"
    by (rule seeded_published)
  have all: "take (nat l) ?seeded = ?seeded" if "3 \<le> l" for l
    using that len by simp
  have first: "list_blogs en s limit = (Inr \<lparr>items = map ?f ?seeded\<rparr>, ?s1)"
    using list_blogs_first [OF assms(1-3), of en limit] all [OF assms(4)] by simp
  have d1: "db ?s1 = Some ?st1" and r1: "reachable ?st1"
    using assms(2) by simp_all
  have ne: "colls ?st1 ''blogpost'' \<noteq> []"
    using len by auto
  have flt: "filter (matches [(''published'', VBool True)]) (colls ?st1 ''blogpost'') = ?seeded"
    using filter_all [of ?seeded "matches [(''published'', VBool True)]"] pub
    by (simp add: matches_published)
  have later: "list_blogs en ?s1 l = (Inr \<lparr>items = map ?f (take (nat l) ?seeded)\<rparr>, ?s1)" for l
    using list_blogs_later [OF d1 r1 ne, of en l] flt by simp
  have again: "\<exists>its'. list_blogs en ?s1 l = (Inr \<lparr>items = its'\<rparr>, ?s1)
            \<and> (3 \<le> l \<longrightarrow> its' = map ?f ?seeded)
            \<and> (0 \<le> l \<longrightarrow> int (length its') \<le> l)
            \<and> (\<forall>d\<in>set its'. d ''published'' = Some (VBool True))" for l
  proof -
    have a: "3 \<le> l \<longrightarrow> map ?f (take (nat l) ?seeded) = map ?f ?seeded"
      using all by simp
    have b: "0 \<le> l \<longrightarrow> int (length (map ?f (take (nat l) ?seeded))) \<le> l"
      by (auto simp: min_def)
    have c: "\<forall>d\<in>set (map ?f (take (nat l) ?seeded)). d ''published'' = Some (VBool True)"
      by (rule stringified_published [OF pub])
    show ?thesis
      using later [of l] a b c by blast
  qed
  have p0: "\<forall>d\<in>set (map ?f ?seeded). d ''published'' = Some (VBool True)"
    using pub by simp
  have l0: "length (map ?f ?seeded) = 3" "int (length (map ?f ?seeded)) \<le> limit"
    using len assms(4) by simp_all
  have c1: "colls ?st1 ''blogpost'' = ?seeded"
    by simp
  show ?thesis
    using first d1 c1 len pub l0 p0 again
    by (intro exI [of _ "map ?f ?seeded"] exI [of _ ?s1] exI [of _ ?st1]) simp
qed

text \<open>The first listing in the demo world, with the default limit of 6.\<close>

theorem list_blogs_seeds_once_witness:
  "\<exists>its s1 st1.
      list_blogs demo_env demo_world 6 = (Inr \<lparr>items = its\<rparr>, s1)
    \<and> db s1 = Some st1
    \<and> colls st1 ''blogpost'' = with_ids (next_oid demo_store) (seed_posts demo_env (ticks demo_world))
    \<and> length (colls st1 ''blogpost'') = 3
    \<and> (\<forall>d\<in>set (colls st1 ''blogpost''). d ''published'' = Some (VBool True))
    \<and> length its = 3
    \<and> (\<forall>d\<in>set its. d ''published'' = Some (VBool True))
    \<and> int (length its) \<le> 6
    \<and> (\<forall>l. \<exists>its'. list_blogs demo_env s1 l = (Inr \<lparr>items = its'\<rparr>, s1)
            \<and> (3 \<le> l \<longrightarrow> its' = its)
            \<and> (0 \<le> l \<longrightarrow> int (length its') \<le> l)
            \<and> (\<forall>d\<in>set its'. d ''published'' = Some (VBool True)))"
proof -
  have e: "colls demo_store ''blogpost'' = []"
    by (simp add: demo_store_def)
  have l: "(3::int) \<le> 6"
    by simp
  show ?thesis
    by (rule list_blogs_seeds_once [OF demo_world_db e l])
qed

section \<open>Issued tokens\<close>

lemma token_claims_dom: "dom (token_claims en i em t) = {''sub'', ''email'', ''exp''}"
  by (auto simp: token_claims_def)

text \<open>The demo registration and the demo login, evaluated.\<close>

lemma demo_register_result:
  "register demo_env demo_world demo_register =
     (Inr \<lparr>token = jwt_encode demo_env
              (token_claims demo_env (VOid 0) (VStr ''ann@example.com'') 2)
              (JWT_SECRET demo_env) JWT_ALG,
           user = (new_user_doc demo_register (demo_digest ''s3cret'') 0 1)
                    (''password_hash'' := None, ''_id'' \<mapsto> VStr (demo_str (VOid 0)))\<rparr>,
      registered_world)"
  using register_ok [OF demo_world_db demo_find_none demo_hash]
  by (simp add: demo_world_def registered_world_def registered_store_def demo_store_def
      demo_env_def demo_register_def)

lemma registered_find:
  "List.find (matches [(''email'', VStr (email demo_login))]) (colls registered_store ''user'')
     = Some ((new_user_doc demo_register (demo_digest ''s3cret'') 0 1)(''_id'' \<mapsto> VOid 0))"
  by (simp add: registered_store_def new_user_doc_def demo_register_def demo_login_def matches_def)

lemma demo_login_result:
  "login demo_env registered_world demo_login =
     (Inr \<lparr>token = jwt_encode demo_env
              (token_claims demo_env (VOid 0) (VStr (email demo_login))
                 (utcnow demo_env (ticks registered_world)))
              (JWT_SECRET demo_env) JWT_ALG,
           user = ((new_user_doc demo_register (demo_digest ''s3cret'') 0 1)(''_id'' \<mapsto> VOid 0))
                    (''_id'' \<mapsto> VStr (py_str demo_env (VOid 0)), ''password_hash'' := None)\<rparr>,
      registered_world\<lparr>ticks := Suc (ticks registered_world)\<rparr>)"
proof -
  let ?u = "(new_user_doc demo_register (demo_digest ''s3cret'') 0 1)(''_id'' \<mapsto> VOid 0)"
  have v: "verify_password demo_env (password demo_login)
             (py_get_default ?u ''password_hash'' (VStr [])) = Inr True"
    by (simp add: verify_password_def demo_env_def demo_verify_def demo_digest_def
        py_get_default_def new_user_doc_def demo_login_def)
  have i: "?u ''_id'' = Some (VOid 0)"
    by simp
  show ?thesis
    by (rule login_ok [OF registered_world_db registered_find v i])
qed

text \<open>
  C7: the token of every successful \<open>register\<close> and \<open>login\<close> is \<open>jwt.encode\<close>, with the
  process secret and the algorithm HS256, of a claims mapping with exactly the fields
  \<open>sub\<close>, \<open>email\<close> and \<open>exp\<close>: \<open>sub\<close> is the user's identifier as a string (the inserted id for
  \<open>register\<close>, the stored \<open>_id\<close> for \<open>login\<close>), \<open>email\<close> the email of the request, and \<open>exp\<close> the
  clock read at issuance plus seven days.
\<close>

theorem issued_token_claims:
  "(register en s1 p = (Inr r1, s1') \<longrightarrow>
      (\<exists>st. db s1 = Some st
        \<and> user r1 ''_id'' = Some (VStr (py_str en (VOid (next_oid st))))
        \<and> token r1 = jwt_encode en
            (token_claims en (VOid (next_oid st)) (VStr (email p)) (utcnow en (ticks s1 + 2)))
            (JWT_SECRET en) ''HS256''))
 \<and> (login en s2 q = (Inr r2, s2') \<longrightarrow>
      (\<exists>st u i. db s2 = Some st
        \<and> List.find (matches [(''email'', VStr (email q))]) (colls st ''user'') = Some u
        \<and> u ''_id'' = Some i
        \<and> token r2 = jwt_encode en
            (token_claims en i (VStr (email q)) (utcnow en (ticks s2)))
            (JWT_SECRET en) ''HS256''))
 \<and> dom (token_claims en i em t) = {''sub'', ''email'', ''exp''}
 \<and> token_claims en i em t ''sub'' = Some (VStr (py_str en i))
 \<and> token_claims en i em t ''email'' = Some em
 \<and> token_claims en i em t ''exp'' = Some (VTime (t + timedelta_minutes (7 * 24 * 60)))"
proof -
  have a: "\<exists>st. db s1 = Some st
        \<and> user r1 ''_id'' = Some (VStr (py_str en (VOid (next_oid st))))
        \<and> token r1 = jwt_encode en
            (token_claims en (VOid (next_oid st)) (VStr (email p)) (utcnow en (ticks s1 + 2)))
            (JWT_SECRET en) ''HS256''"
    if reg: "register en s1 p = (Inr r1, s1')"
  proof -
    obtain st h where h: "db s1 = Some st" "reachable st"
        "List.find (matches [(''email'', VStr (email p))]) (colls st ''user'') = None"
        "hash_password en (hash_calls s1) (password p) = Inr h"
      using register_InrD [OF reg] by blast
    show ?thesis
      using register_ok [OF h] reg h(1) by (auto simp: JWT_ALG_def)
  qed
  have b: "\<exists>st u i. db s2 = Some st
        \<and> List.find (matches [(''email'', VStr (email q))]) (colls st ''user'') = Some u
        \<and> u ''_id'' = Some i
        \<and> token r2 = jwt_encode en
            (token_claims en i (VStr (email q)) (utcnow en (ticks s2)))
            (JWT_SECRET en) ''HS256''"
    if log: "login en s2 q = (Inr r2, s2')"
  proof -
    obtain st u i where h: "db s2 = Some st" "reachable st"
        "List.find (matches [(''email'', VStr (email q))]) (colls st ''user'') = Some u"
        "verify_password en (password q) (py_get_default u ''password_hash'' (VStr [])) = Inr True"
        "u ''_id'' = Some i"
      using login_InrD [OF log] by blast
    show ?thesis
      using login_ok [OF h] log h(1,3,5) by (auto simp: JWT_ALG_def)
  qed
  have c: "token_claims en i em t ''exp'' = Some (VTime (t + timedelta_minutes (7 * 24 * 60)))"
    by (simp add: token_claims_def timedelta_minutes_def)
  show ?thesis
    using a b c token_claims_dom [of en i em t] by (simp add: token_claims_def)
qed

text \<open>The tokens of the demo registration and of the demo login.\<close>

theorem issued_token_claims_witness:
  "token (projr (fst (register demo_env demo_world demo_register)))
     = jwt_encode demo_env (token_claims demo_env (VOid 0) (VStr ''ann@example.com'') 2)
         ''supersecretkey'' ''HS256''
 \<and> token (projr (fst (login demo_env registered_world demo_login)))
     = jwt_encode demo_env (token_claims demo_env (VOid 0) (VStr ''ann@example.com'') 3)
         ''supersecretkey'' ''HS256''
 \<and> token_claims demo_env (VOid 0) (VStr ''ann@example.com'') 2 ''exp''
     = Some (VTime 604800000002)"
proof -
  let ?r1 = "projr (fst (register demo_env demo_world demo_register))"
  let ?r2 = "projr (fst (login demo_env registered_world demo_login))"
  have reg: "register demo_env demo_world demo_register = (Inr ?r1, registered_world)"
    by (simp add: demo_register_result)
  have log: "login demo_env registered_world demo_login
      = (Inr ?r2, registered_world\<lparr>ticks := Suc (ticks registered_world)\<rparr>)"
    by (simp add: demo_login_result)
  note A = issued_token_claims [THEN conjunct1, THEN mp, OF reg]
  note B = issued_token_claims [THEN conjunct2, THEN conjunct1, THEN mp, OF log]
  note C = issued_token_claims [THEN conjunct2, THEN conjunct2]
  have s: "JWT_SECRET demo_env = ''supersecretkey''"
    by (simp add: JWT_SECRET_def demo_env_def)
  have a: "token ?r1 = jwt_encode demo_env
      (token_claims demo_env (VOid 0) (VStr ''ann@example.com'') 2) ''supersecretkey'' ''HS256''"
    using A s demo_world_db
    by (auto simp: demo_world_def demo_store_def demo_env_def demo_register_def)
  have b: "token ?r2 = jwt_encode demo_env
      (token_claims demo_env (VOid 0) (VStr ''ann@example.com'') 3) ''supersecretkey'' ''HS256''"
    using B s registered_find registered_world_db
    by (auto simp: registered_world_def demo_env_def demo_login_def)
  have c: "token_claims demo_env (VOid 0) (VStr ''ann@example.com'') 2 ''exp''
     = Some (VTime 604800000002)"
    using C [of demo_env "VOid 0" "VStr ''ann@example.com''" 2]
    by (simp add: timedelta_minutes_def)
  show ?thesis
    using a b c by simp
qed

section \<open>Identifiers in responses\<close>

lemma contact_InrD:
  assumes "contact en s c = (Inr cr, s')"
  shows "\<exists>x. res_id cr = VStr x"
  using assms
  by (auto simp: contact_def create_document_def Let_def
      split: option.splits if_splits sum.splits prod.splits)

lemma demo_contact_result:
  "\<exists>s'. contact demo_env demo_world demo_contact = (Inr \<lparr>status = ''ok'', res_id = VStr ''oid''\<rparr>, s')"
  by (simp add: contact_def create_document_def insert_one_def contact_dict_def Let_def
      demo_world_def demo_store_def demo_env_def demo_str_def)

lemma demo_blogs_result:
  "\<exists>b s'. list_blogs demo_env demo_world 6 = (Inr b, s')"
proof -
  have e: "colls demo_store ''blogpost'' = []"
    by (simp add: demo_store_def)
  show ?thesis
    using list_blogs_first [OF demo_world_db e] by blast
qed

text \<open>
  C9: in every response the record identifier is a plain string (\<open>VStr\<close>), never the
  store's \<open>ObjectId\<close>: the \<open>_id\<close> of the user payload of \<open>register\<close> and \<open>login\<close>, which is also
  the \<open>sub\<close> claim of the token, the \<open>_id\<close> of every item of \<open>list_blogs\<close>, and the \<open>id\<close> of
  the \<open>contact\<close> response.
\<close>

theorem identifiers_are_strings:
  "(register en s1 p = (Inr r1, s1') \<longrightarrow>
      (\<exists>x em t. user r1 ''_id'' = Some (VStr x)
         \<and> token r1 = jwt_encode en [''sub'' \<mapsto> VStr x, ''email'' \<mapsto> em, ''exp'' \<mapsto> VTime t]
                         (JWT_SECRET en) JWT_ALG))
 \<and> (login en s2 q = (Inr r2, s2') \<longrightarrow>
      (\<exists>x em t. user r2 ''_id'' = Some (VStr x)
         \<and> token r2 = jwt_encode en [''sub'' \<mapsto> VStr x, ''email'' \<mapsto> em, ''exp'' \<mapsto> VTime t]
                         (JWT_SECRET en) JWT_ALG))
 \<and> (list_blogs en s3 l = (Inr b, s3') \<longrightarrow> (\<forall>d\<in>set (items b). \<exists>x. d ''_id'' = Some (VStr x)))
 \<and> (contact en s4 c = (Inr cr, s4') \<longrightarrow> (\<exists>x. res_id cr = VStr x))"
proof -
  have a: "\<exists>x em t. user r1 ''_id'' = Some (VStr x)
         \<and> token r1 = jwt_encode en [''sub'' \<mapsto> VStr x, ''email'' \<mapsto> em, ''exp'' \<mapsto> VTime t]
                         (JWT_SECRET en) JWT_ALG"
    if reg: "register en s1 p = (Inr r1, s1')"
  proof -
    obtain st h where h: "db s1 = Some st" "reachable st"
        "List.find (matches [(''email'', VStr (email p))]) (colls st ''user'') = None"
        "hash_password en (hash_calls s1) (password p) = Inr h"
      using register_InrD [OF reg] by blast
    have "user r1 ''_id'' = Some (VStr (py_str en (VOid (next_oid st))))"
      and "token r1 = jwt_encode en
            (token_claims en (VOid (next_oid st)) (VStr (email p)) (utcnow en (ticks s1 + 2)))
            (JWT_SECRET en) JWT_ALG"
      using register_ok [OF h] reg by auto
    then show ?thesis
      unfolding token_claims_def by blast
  qed
  have b: "\<exists>x em t. user r2 ''_id'' = Some (VStr x)
         \<and> token r2 = jwt_encode en [''sub'' \<mapsto> VStr x, ''email'' \<mapsto> em, ''exp'' \<mapsto> VTime t]
                         (JWT_SECRET en) JWT_ALG"
    if log: "login en s2 q = (Inr r2, s2')"
  proof -
    obtain st u i where h: "db s2 = Some st" "reachable st"
        "List.find (matches [(''email'', VStr (email q))]) (colls st ''user'') = Some u"
        "verify_password en (password q) (py_get_default u ''password_hash'' (VStr [])) = Inr True"
        "u ''_id'' = Some i"
      using login_InrD [OF log] by blast
    have "user r2 ''_id'' = Some (VStr (py_str en i))"
      and "token r2 = jwt_encode en
            (token_claims en i (VStr (email q)) (utcnow en (ticks s2)))
            (JWT_SECRET en) JWT_ALG"
      using login_ok [OF h] log by auto
    then show ?thesis
      unfolding token_claims_def by blast
  qed
  have c: "\<forall>d\<in>set (items b). \<exists>x. d ''_id'' = Some (VStr x)"
    if lb: "list_blogs en s3 l = (Inr b, s3')"
    using list_blogs_InrD [OF lb] by auto
  have d: "\<exists>x. res_id cr = VStr x" if ct: "contact en s4 c = (Inr cr, s4')"
    using ct by (rule contact_InrD)
  show ?thesis
    using a b c d by blast
qed

text \<open>The four handlers in the demo world.\<close>

theorem identifiers_are_strings_witness:
  "(\<exists>x em t. user (projr (fst (register demo_env demo_world demo_register))) ''_id'' = Some (VStr x)
      \<and> token (projr (fst (register demo_env demo_world demo_register)))
          = jwt_encode demo_env [''sub'' \<mapsto> VStr x, ''email'' \<mapsto> em, ''exp'' \<mapsto> VTime t]
              (JWT_SECRET demo_env) JWT_ALG)
 \<and> (\<exists>x em t. user (projr (fst (login demo_env registered_world demo_login))) ''_id'' = Some (VStr x)
      \<and> token (projr (fst (login demo_env registered_world demo_login)))
          = jwt_encode demo_env [''sub'' \<mapsto> VStr x, ''email'' \<mapsto> em, ''exp'' \<mapsto> VTime t]
              (JWT_SECRET demo_env) JWT_ALG)
 \<and> list_all (\<lambda>d. \<exists>x. d ''_id'' = Some (VStr x))
      (items (projr (fst (list_blogs demo_env demo_world 6))))
 \<and> (\<exists>x. res_id (projr (fst (contact demo_env demo_world demo_contact))) = VStr x)"
proof -
  let ?r1 = "projr (fst (register demo_env demo_world demo_register))"
  let ?r2 = "projr (fst (login demo_env registered_world demo_login))"
  let ?b = "projr (fst (list_blogs demo_env demo_world 6))"
  let ?cr = "projr (fst (contact demo_env demo_world demo_contact))"
  have reg: "register demo_env demo_world demo_register = (Inr ?r1, registered_world)"
    by (simp add: demo_register_result)
  have log: "login demo_env registered_world demo_login
      = (Inr ?r2, registered_world\<lparr>ticks := Suc (ticks registered_world)\<rparr>)"
    by (simp add: demo_login_result)
  obtain s3 where lb: "list_blogs demo_env demo_world 6 = (Inr ?b, s3)"
    using demo_blogs_result by auto
  obtain s4 where ct: "contact demo_env demo_world demo_contact = (Inr ?cr, s4)"
    using demo_contact_result by auto
  note A = identifiers_are_strings [THEN conjunct1, THEN mp, OF reg]
  note B = identifiers_are_strings [THEN conjunct2, THEN conjunct1, THEN mp, OF log]
  note C = identifiers_are_strings [THEN conjunct2, THEN conjunct2, THEN conjunct1, THEN mp, OF lb]
  note D = identifiers_are_strings [THEN conjunct2, THEN conjunct2, THEN conjunct2, THEN mp, OF ct]
  have C': "list_all (\<lambda>d. \<exists>x. d ''_id'' = Some (VStr x)) (items ?b)"
    using C by (simp add: list_all_iff)
  show ?thesis
    using A B C' D by (intro conjI)
qed

section \<open>An unavailable store\<close>

text \<open>
  C5, as the code has it: with no store at all (\<open>db is None\<close>) each of the four handlers
  fails with HTTP 500 "Database not available" and leaves the world untouched. With a
  store that exists but cannot be reached no handler writes a record either, but
  \<open>register\<close>, \<open>login\<close> and \<open>list_blogs\<close> fail with the driver's exception, which no handler
  catches, and \<open>contact\<close> with whatever \<open>create_document\<close> raises.
\<close>

theorem store_unavailable:
  "(db s = None \<longrightarrow>
       register en s p = (Inl (HTTPException 500 ''Database not available''), s)
     \<and> login en s q = (Inl (HTTPException 500 ''Database not available''), s)
     \<and> list_blogs en s l = (Inl (HTTPException 500 ''Database not available''), s)
     \<and> contact en s c = (Inl (HTTPException 500 ''Database not available''), s))
 \<and> (db s = Some st \<and> \<not> reachable st \<longrightarrow>
       register en s p = (Inl (Raised ''ServerSelectionTimeoutError''), s)
     \<and> login en s q = (Inl (Raised ''ServerSelectionTimeoutError''), s)
     \<and> list_blogs en s l = (Inl (Raised ''ServerSelectionTimeoutError''), s)
     \<and> isl (fst (contact en s c)) \<and> db (snd (contact en s c)) = db s)"
proof -
  have a: "register en s p = (Inl (HTTPException 500 ''Database not available''), s)"
    "login en s q = (Inl (HTTPException 500 ''Database not available''), s)"
    "list_blogs en s l = (Inl (HTTPException 500 ''Database not available''), s)"
    "contact en s c = (Inl (HTTPException 500 ''Database not available''), s)"
    if "db s = None"
    using that
    by (simp_all add: register_def login_def list_blogs_def contact_def db_unavailable_def)
  have b: "register en s p = (Inl (Raised ''ServerSelectionTimeoutError''), s)"
    "login en s q = (Inl (Raised ''ServerSelectionTimeoutError''), s)"
    "list_blogs en s l = (Inl (Raised ''ServerSelectionTimeoutError''), s)"
    "isl (fst (contact en s c))" "db (snd (contact en s c)) = db s"
    if "db s = Some st" and "\<not> reachable st"
    using that
    by (simp_all add: register_def login_def list_blogs_def contact_def find_one_def
        count_documents_def create_document_def unreachable_def Let_def)
  show ?thesis
    using a b by blast
qed

text \<open>The handlers without a store, and with the store down.\<close>

theorem store_unavailable_witness:
  "register demo_env no_db_world demo_register
     = (Inl (HTTPException 500 ''Database not available''), no_db_world)
 \<and> login demo_env no_db_world demo_login
     = (Inl (HTTPException 500 ''Database not available''), no_db_world)
 \<and> list_blogs demo_env no_db_world 6
     = (Inl (HTTPException 500 ''Database not available''), no_db_world)
 \<and> contact demo_env no_db_world demo_contact
     = (Inl (HTTPException 500 ''Database not available''), no_db_world)
 \<and> login demo_env down_world demo_login
     = (Inl (Raised ''ServerSelectionTimeoutError''), down_world)
 \<and> list_blogs demo_env down_world 6
     = (Inl (Raised ''ServerSelectionTimeoutError''), down_world)
 \<and> db (snd (contact demo_env down_world demo_contact)) = db down_world"
proof -
  have n: "db no_db_world = None"
    by (simp add: no_db_world_def)
  have d: "db down_world = Some (demo_store\<lparr>reachable := False\<rparr>)
      \<and> \<not> reachable (demo_store\<lparr>reachable := False\<rparr>)"
    by (simp add: down_world_def)
  note A = store_unavailable [THEN conjunct1, THEN mp, OF n]
  note B = store_unavailable [THEN conjunct2, THEN mp, OF d]
  show ?thesis
    using A B by blast
qed

text \<open>
  C5 as stated fails for a store that is initialised but unreachable: \<open>register\<close> ends in
  the driver's exception, which no handler catches. That is the unhandled crash the claim
  rules out, and not the handler's own \<open>HTTPException\<close> "Database not available".
\<close>

theorem unreachable_store_counterexample:
  "fst (register demo_env down_world demo_register)
     = Inl (Raised ''ServerSelectionTimeoutError'')"
  by (simp add: register_def find_one_def unreachable_def down_world_def)

section \<open>A verification that raises\<close>

text \<open>
  \<open>verify_password\<close> hands its arguments to the hashing context and returns what it
  returns; it has no handler of its own, and neither has \<open>login\<close> around its call. So when
  the context raises for the user that \<open>login\<close> found, \<open>login\<close> ends in that exception.
\<close>

lemma login_verify_raises:
  assumes "db s = Some st" and "reachable st"
    and f: "List.find (matches [(''email'', VStr (email q))]) (colls st ''user'') = Some u"
    and v: "verify_password en (password q) (py_get_default u ''password_hash'' (VStr [])) = Inl cls"
  shows "login en s q = (Inl (Raised cls), s)"
proof -
  have "truthy (Some u)"
    using f find_matches_field truthy_field by blast
  then show ?thesis
    using assms by (simp add: login_def find_one_def)
qed

text \<open>The store with a user record that has no \<open>password_hash\<close>.\<close>

lemma legacy_world_db:
  "db legacy_world = Some legacy_store" "reachable legacy_store"
  by (simp_all add: legacy_world_def legacy_store_def demo_store_def)

lemma legacy_find:
  "List.find (matches [(''email'', VStr (email demo_login))]) (colls legacy_store ''user'')
     = Some legacy_user"
  by (simp add: matches_def demo_login_def legacy_store_def legacy_user_def)

lemma legacy_hash_default:
  "py_get_default legacy_user ''password_hash'' (VStr []) = VStr []"
  by (simp add: py_get_default_def legacy_user_def)

text \<open>
  C4 fails on the code: \<open>verify_password\<close> raises on a malformed hash instead of returning
  \<open>False\<close>. On the empty string, which is what \<open>login\<close> passes for a user without a
  \<open>password_hash\<close>, and on a string that is no hash at all, the context raises
  \<open>UnknownHashError\<close> and \<open>verify_password\<close> raises with it.
\<close>

theorem verify_password_raises:
  "verify_password demo_env ''s3cret'' (py_get_default legacy_user ''password_hash'' (VStr []))
     = Inl ''UnknownHashError''
 \<and> verify_password demo_env ''s3cret'' (VStr ''not-a-hash'') = Inl ''UnknownHashError''"
  by (simp add: legacy_hash_default verify_password_def demo_env_def demo_verify_def)

text \<open>
  C3 fails on the code: against the store whose record for the email has no
  \<open>password_hash\<close>, the login with that email ends in the unhandled \<open>UnknownHashError\<close>,
  while the login with an email that matches no record ends in HTTP 400 "Invalid
  credentials". The two failures differ, so the error tells whether the account exists.
\<close>

theorem login_errors_differ:
  "fst (login demo_env legacy_world demo_login) = Inl (Raised ''UnknownHashError'')
 \<and> fst (login demo_env legacy_world \<lparr>email = ''bob@example.com'', password = ''s3cret''\<rparr>)
     = Inl (HTTPException 400 ''Invalid credentials'')"
proof -
  have v: "verify_password demo_env (password demo_login)
             (py_get_default legacy_user ''password_hash'' (VStr [])) = Inl ''UnknownHashError''"
    by (simp add: legacy_hash_default verify_password_def demo_env_def demo_verify_def)
  have known: "login demo_env legacy_world demo_login
      = (Inl (Raised ''UnknownHashError''), legacy_world)"
    by (rule login_verify_raises [OF legacy_world_db legacy_find v])
  have none: "List.find (matches [(''email'', VStr ''bob@example.com'')])
                (colls legacy_store ''user'') = None"
    by (simp add: matches_def legacy_store_def legacy_user_def)
  have unknown: "login demo_env legacy_world \<lparr>email = ''bob@example.com'', password = ''s3cret''\<rparr>
      = (Inl (HTTPException 400 ''Invalid credentials''), legacy_world)"
    using legacy_world_db none
    by (simp add: login_def find_one_def truthy_def invalid_credentials_def)
  show ?thesis
    using known unknown by simp
qed

section \<open>Listing with a small limit\<close>

text \<open>
  C6 as stated, for any limit, fails: with a limit of 2 the first listing of the empty
  demo world returns 2 items, not 3.
\<close>

theorem small_limit_counterexample:
  "map_sum id (\<lambda>b. length (items b)) (fst (list_blogs demo_env demo_world 2)) = Inr 2"
proof -
  have e: "colls demo_store ''blogpost'' = []"
    by (simp add: demo_store_def)
  show ?thesis
    by (simp add: list_blogs_first [OF demo_world_db e] with_ids_length seed_posts_length)
qed

end
